theory Spec2Isabelle
  imports Complex_Main "HOL-Library.Sublist" "HOL-Library.List_Lexorder" "HOL-Library.Char_ord"
begin

section \<open>JavaScript values\<close>

text \<open>
  The engine is \<^verbatim>\<open>BiomimeticMemoryManager.js\<close>. Its numbers are JavaScript numbers; they
  are modelled as exact reals, so the rounding of IEEE doubles is not part of the model
  (a division is the one place where the code could leave the finite numbers, and it is
  written out in \<open>js_divide\<close>). Timestamps are integers, the milliseconds of
  \<^verbatim>\<open>Date.now()\<close> and \<^verbatim>\<open>getTime()\<close>; counters are integers.

  A property of a caller's object that is missing or \<^verbatim>\<open>undefined\<close> is \<open>None\<close>.
  \<^verbatim>\<open>x || d\<close> yields \<open>d\<close> for every falsy \<open>x\<close>: a missing value, the number 0, the
  empty string. Arrays and objects are never falsy.
\<close>

definition or_num :: "('a::zero) option \<Rightarrow> 'a \<Rightarrow> 'a" where
  "or_num x d = (case x of None \<Rightarrow> d | Some v \<Rightarrow> if v = 0 then d else v)"

definition or_str :: "string option \<Rightarrow> string \<Rightarrow> string" where
  "or_str x d = (case x of None \<Rightarrow> d | Some v \<Rightarrow> if v = [] then d else v)"

definition or_obj :: "'a option \<Rightarrow> 'a \<Rightarrow> 'a" where
  "or_obj x d = (case x of None \<Rightarrow> d | Some v \<Rightarrow> v)"

text \<open>
  \<^verbatim>\<open>a / b\<close> on finite numbers: \<open>None\<close> stands for the results that are not finite
  numbers (\<^verbatim>\<open>NaN\<close> for 0/0, an infinity for any other division by zero).
\<close>

definition js_divide :: "real \<Rightarrow> real \<Rightarrow> real option" where
  "js_divide a b = (if b = 0 then None else Some (a / b))"

text \<open>
  \<^verbatim>\<open>xs.slice(0, e)\<close> for an integer \<open>e\<close>: a negative end counts from the end of the
  array, an end beyond the length stops at the length; \<^verbatim>\<open>slice(0, undefined)\<close> is the
  whole array.
\<close>

definition slice0 :: "'a list \<Rightarrow> int option \<Rightarrow> 'a list" where
  "slice0 xs e =
     (case e of
        None \<Rightarrow> xs
      | Some k \<Rightarrow> if k < 0 then take (nat (int (length xs) + k)) xs else take (nat k) xs)"

text \<open>
  \<^verbatim>\<open>xs.sort(cmp)\<close>: the sort is stable (ECMAScript 2019), and \<open>cmp a b \<le> 0\<close> keeps
  \<open>a\<close> before \<open>b\<close>. For a comparator that is a difference of keys the result is
  the one stable arrangement, which insertion from the right computes.
\<close>

fun insert_cmp :: "('a \<Rightarrow> 'a \<Rightarrow> real) \<Rightarrow> 'a \<Rightarrow> 'a list \<Rightarrow> 'a list" where
  "insert_cmp cmp x [] = [x]"
| "insert_cmp cmp x (y # ys) =
     (if cmp x y \<le> 0 then x # y # ys else y # insert_cmp cmp x ys)"

definition sort_cmp :: "('a \<Rightarrow> 'a \<Rightarrow> real) \<Rightarrow> 'a list \<Rightarrow> 'a list" where
  "sort_cmp cmp xs = foldr (insert_cmp cmp) xs []"

section \<open>Records of the engine\<close>

text \<open>
  The memory object built by \<^verbatim>\<open>storeMemory\<close> (its \<^verbatim>\<open>id\<close> and \<^verbatim>\<open>type\<close> are
  \<open>mem_id\<close> and \<open>mtype\<close> here).
\<close>

record memory =
  mem_id :: string
  content :: string
  mtype :: string
  weight :: real
  created :: int
  lastAccessed :: int
  accessCount :: int
  emotionalWeight :: real
  semanticWeight :: real
  tags :: "string list"
  metadata :: "(string \<times> string) list"

text \<open>The caller's \<^verbatim>\<open>memoryData\<close> argument of \<^verbatim>\<open>storeMemory\<close>.\<close>

record memoryData =
  md_content :: string
  md_type :: "string option"
  md_initialWeight :: "real option"
  md_emotionalWeight :: "real option"
  md_semanticWeight :: "real option"
  md_tags :: "string list option"
  md_metadata :: "(string \<times> string) list option"

text \<open>
  \<^verbatim>\<open>this.config.memory\<close> and \<^verbatim>\<open>this.importanceFactors\<close>: the constructor fixes them, it
  reads no such setting from its \<^verbatim>\<open>config\<close> argument.
\<close>

definition consciousThreshold :: real where "consciousThreshold = 0.8"
definition easyRecallThreshold :: real where "easyRecallThreshold = 0.6"
definition effortThreshold :: real where "effortThreshold = 0.3"
definition subconscciousThreshold :: real where "subconscciousThreshold = 0.1"
definition decayRate :: real where "decayRate = 0.001"
definition consolidationStrength :: real where "consolidationStrength = 0.1"

definition factor_recency :: real where "factor_recency = 0.3"
definition factor_frequency :: real where "factor_frequency = 0.25"
definition factor_emotional :: real where "factor_emotional = 0.25"
definition factor_semantic :: real where "factor_semantic = 0.2"

record memoryStats =
  totalMemories :: nat
  consciousMemories :: nat
  consolidationsPerformed :: nat
  lastConsolidation :: "int option"
  averageWeight :: real

datatype error = NotInitialized | RegionError string

datatype region = Hippocampus | Neocortex | BasalGanglia | Thalamus | Amygdala | Cerebellum

definition all_regions :: "region list" where
  "all_regions = [Hippocampus, Neocortex, BasalGanglia, Thalamus, Amygdala, Cerebellum]"

text \<open>
  The options object that \<^verbatim>\<open>searchMemories\<close> builds and hands to every region. A field is
  \<open>None\<close> when its value is \<^verbatim>\<open>undefined\<close>.
\<close>

record searchOptions =
  maxResults :: "int option"
  minWeight :: "real option"
  includeSubconscious :: "bool option"
  sortBy :: "string option"

section \<open>The brain regions\<close>

text \<open>
  The manager reaches its six stores through private methods:
  \<^verbatim>\<open>_distributeMemory\<close>, \<^verbatim>\<open>_searchHippocampus\<close> ... \<^verbatim>\<open>_searchCerebellum\<close>,
  \<^verbatim>\<open>_searchHippocampusContent\<close> ... \<^verbatim>\<open>_searchCerebellumContent\<close>,
  \<^verbatim>\<open>_updateMemoryAcrossRegions\<close>, \<^verbatim>\<open>_getAllMemoriesForConsolidation\<close>,
  \<^verbatim>\<open>_createSemanticAssociations\<close> and \<^verbatim>\<open>_getHippocampusStats\<close> ... \<^verbatim>\<open>_getCerebellumStats\<close>.
  They are the interface to the stores, so the operations below take them as a record of
  functions over the state \<open>'s\<close> of the stores; a call that rejects is \<open>Inl\<close>. A content
  search may hold \<^verbatim>\<open>null\<close> entries (\<open>None\<close>), which \<^verbatim>\<open>filter(Boolean)\<close> drops.
\<close>

record 's regions =
  distributeMemory :: "memory \<Rightarrow> 's \<Rightarrow> error + 's"
  searchRegion :: "region \<Rightarrow> string \<Rightarrow> 's \<Rightarrow> error + memory option"
  searchRegionContent :: "region \<Rightarrow> string \<Rightarrow> searchOptions \<Rightarrow> 's \<Rightarrow> error + memory option list"
  updateMemoryAcrossRegions :: "memory \<Rightarrow> 's \<Rightarrow> error + 's"
  getAllMemoriesForConsolidation :: "'s \<Rightarrow> error + memory list"
  createSemanticAssociations :: "memory \<Rightarrow> 's \<Rightarrow> error + 's"
  getRegionStats :: "region \<Rightarrow> 's \<Rightarrow> error + nat"

text \<open>
  What the source file itself puts behind that interface: placeholders
  (\<^verbatim>\<open>async _distributeMemory(memory) { return []; }\<close>,
  \<^verbatim>\<open>async _searchHippocampus(id) { return null; }\<close>, ...), which store nothing and find
  nothing.
\<close>

definition placeholder_regions :: "unit regions" where
  "placeholder_regions =
     \<lparr> distributeMemory = (\<lambda>m s. Inr s),
       searchRegion = (\<lambda>r i s. Inr None),
       searchRegionContent = (\<lambda>r q so s. Inr []),
       updateMemoryAcrossRegions = (\<lambda>m s. Inr s),
       getAllMemoriesForConsolidation = (\<lambda>s. Inr []),
       createSemanticAssociations = (\<lambda>m s. Inr s),
       getRegionStats = (\<lambda>r s. Inr 0) \<rparr>"

text \<open>
  Regions that do keep what they are given, for running the engine on concrete data: one
  list of records stands for the stores, a write appends to it, an update replaces the
  records of the same id, and the regions named in \<open>holders\<close> answer the lookups and
  the content searches from it (a content search returns every record).
\<close>

definition list_regions :: "region list \<Rightarrow> memory list regions" where
  "list_regions holders =
     \<lparr> distributeMemory = (\<lambda>m s. Inr (s @ [m])),
       searchRegion = (\<lambda>r i s. Inr (if r \<in> set holders then find (\<lambda>m. mem_id m = i) s else None)),
       searchRegionContent = (\<lambda>r q so s. Inr (if r \<in> set holders then map Some s else [])),
       updateMemoryAcrossRegions = (\<lambda>m s. Inr (map (\<lambda>x. if mem_id x = mem_id m then m else x) s)),
       getAllMemoriesForConsolidation = (\<lambda>s. Inr s),
       createSemanticAssociations = (\<lambda>m s. Inr s),
       getRegionStats = (\<lambda>r s. Inr (if r \<in> set holders then length s else 0)) \<rparr>"

text \<open>The manager: its \<^verbatim>\<open>isInitialized\<close> flag, its counters, and the stores behind it.\<close>

record 's manager =
  isInitialized :: bool
  stats :: memoryStats
  stores :: 's

text \<open>The manager as the constructor and a successful \<^verbatim>\<open>initialize()\<close> leave it.\<close>

definition initial_manager :: "'s \<Rightarrow> 's manager" where
  "initial_manager s =
     \<lparr> isInitialized = True,
       stats = \<lparr> totalMemories = 0, consciousMemories = 0, consolidationsPerformed = 0,
                 lastConsolidation = None, averageWeight = 0 \<rparr>,
       stores = s \<rparr>"

section \<open>storeMemory\<close>

text \<open>
  The object literal of \<^verbatim>\<open>storeMemory\<close>. The id comes from \<^verbatim>\<open>_generateMemoryId()\<close> (clock
  and random digits) and is a parameter, as is the time \<open>now\<close> of the two
  \<^verbatim>\<open>new Date()\<close>.
\<close>

definition newMemory :: "memoryData \<Rightarrow> string \<Rightarrow> int \<Rightarrow> memory" where
  "newMemory d i now =
     \<lparr> mem_id = i,
       content = md_content d,
       mtype = or_str (md_type d) ''general'',
       weight = or_num (md_initialWeight d) 1.0,
       created = now,
       lastAccessed = now,
       accessCount = 0,
       emotionalWeight = or_num (md_emotionalWeight d) 0.5,
       semanticWeight = or_num (md_semanticWeight d) 0.5,
       tags = or_obj (md_tags d) [],
       metadata = or_obj (md_metadata d) [] \<rparr>"

text \<open>
  \<^verbatim>\<open>storeMemory(memoryData)\<close> returns the id. When the write to the regions rejects, the
  error is rethrown and the counters stay as they were. The \<^verbatim>\<open>memoryStored\<close> event and
  the log line are not modelled.
\<close>

definition storeMemory ::
  "'s regions \<Rightarrow> 's manager \<Rightarrow> memoryData \<Rightarrow> string \<Rightarrow> int \<Rightarrow> error + (string \<times> 's manager)" where
  "storeMemory R mgr d i now =
     (if \<not> isInitialized mgr then Inl NotInitialized
      else
        let m = newMemory d i now in
        case distributeMemory R m (stores mgr) of
          Inl e \<Rightarrow> Inl e
        | Inr s' \<Rightarrow>
            Inr (mem_id m,
                 mgr\<lparr> stores := s',
                      stats := (stats mgr)
                        \<lparr> totalMemories := totalMemories (stats mgr) + 1,
                          consciousMemories :=
                            (if weight m \<ge> consciousThreshold
                             then consciousMemories (stats mgr) + 1
                             else consciousMemories (stats mgr)) \<rparr> \<rparr>))"

text \<open>
  The weight formula of the repository is \<^verbatim>\<open>calculateMemoryWeight(content, importance =
  0.5, emotional = 0.5)\<close> of the class \<^verbatim>\<open>NeuromorphicBrain\<close>
  (\<^verbatim>\<open>src/neuromorphic-mcp-server.js\<close>); a default applies to a missing argument.
\<close>

definition calculateMemoryWeight :: "string \<Rightarrow> real option \<Rightarrow> real option \<Rightarrow> real" where
  "calculateMemoryWeight c importance emotional =
     (let baseWeight = 0.6;
          importanceBoost = or_obj importance 0.5 * 0.3;
          emotionalBoost = or_obj emotional 0.5 * 0.1
      in min 1.0 (baseWeight + importanceBoost + emotionalBoost))"

section \<open>retrieveMemory\<close>

text \<open>
  The six lookups run in parallel on the same stores; \<^verbatim>\<open>Promise.all\<close> keeps their
  results in the order of the array, and rejects when one of them rejects.
\<close>

fun collect :: "(error + 'a) list \<Rightarrow> error + 'a list" where
  "collect [] = Inr []"
| "collect (x # xs) =
     (case x of
        Inl e \<Rightarrow> Inl e
      | Inr v \<Rightarrow> (case collect xs of Inl e \<Rightarrow> Inl e | Inr vs \<Rightarrow> Inr (v # vs)))"

definition searchAllRegions :: "'s regions \<Rightarrow> string \<Rightarrow> 's \<Rightarrow> error + memory option list" where
  "searchAllRegions R i s = collect (map (\<lambda>r. searchRegion R r i s) all_regions)"

text \<open>
  The three assignments after a hit: \<^verbatim>\<open>memory.lastAccessed = new Date()\<close>,
  \<^verbatim>\<open>memory.accessCount++\<close>, \<^verbatim>\<open>memory.weight = Math.min(1.0, memory.weight + 0.01)\<close>.
\<close>

definition reinforce :: "int \<Rightarrow> memory \<Rightarrow> memory" where
  "reinforce now m =
     m\<lparr> lastAccessed := now,
        accessCount := accessCount m + 1,
        weight := min 1.0 (weight m + 0.01) \<rparr>"

text \<open>
  \<^verbatim>\<open>_calculateAccessDelay(weight)\<close>, in milliseconds. \<^verbatim>\<open>retrieveMemory\<close> sleeps that
  long after a hit, on the weight as found; the pause changes no value and is not part of
  the result below.
\<close>

definition calculateAccessDelay :: "real \<Rightarrow> nat" where
  "calculateAccessDelay w =
     (if w \<ge> consciousThreshold then 0
      else if w \<ge> easyRecallThreshold then 100
      else if w \<ge> effortThreshold then 500
      else if w \<ge> subconscciousThreshold then 1500
      else 3000)"

text \<open>
  \<^verbatim>\<open>retrieveMemory(memoryId)\<close>: the first region answer that is not \<^verbatim>\<open>null\<close> is the
  memory; without one the result is \<^verbatim>\<open>null\<close> (\<open>None\<close>).
\<close>

definition retrieveMemory ::
  "'s regions \<Rightarrow> 's manager \<Rightarrow> string \<Rightarrow> int \<Rightarrow> error + (memory option \<times> 's manager)" where
  "retrieveMemory R mgr i now =
     (if \<not> isInitialized mgr then Inl NotInitialized
      else
        case searchAllRegions R i (stores mgr) of
          Inl e \<Rightarrow> Inl e
        | Inr searchResults \<Rightarrow>
            (case find (\<lambda>result. result \<noteq> None) searchResults of
               Some (Some memory) \<Rightarrow>
                 (let memory' = reinforce now memory in
                  case updateMemoryAcrossRegions R memory' (stores mgr) of
                    Inl e \<Rightarrow> Inl e
                  | Inr s' \<Rightarrow> Inr (Some memory', mgr\<lparr> stores := s' \<rparr>))
             | _ \<Rightarrow> Inr (None, mgr)))"

section \<open>searchMemories\<close>

text \<open>
  The caller's \<^verbatim>\<open>options\<close> argument. The manager spreads it over its own defaults
  (\<^verbatim>\<open>{ maxResults: options.maxResults || 20, ..., ...options }\<close>), so a key that the
  caller's object has wins even when its value is falsy or \<^verbatim>\<open>undefined\<close>; the three
  cases of a key are kept apart. \<^verbatim>\<open>maxResults\<close> is an integer here.
\<close>

datatype 'a jsprop = Absent | Undefined | Given 'a

definition prop_value :: "'a jsprop \<Rightarrow> 'a option" where
  "prop_value p = (case p of Given v \<Rightarrow> Some v | _ \<Rightarrow> None)"

definition spread :: "'a jsprop \<Rightarrow> 'a \<Rightarrow> 'a option" where
  "spread p own = (case p of Absent \<Rightarrow> Some own | Undefined \<Rightarrow> None | Given v \<Rightarrow> Some v)"

definition or_bool :: "bool option \<Rightarrow> bool \<Rightarrow> bool" where
  "or_bool x d = (case x of None \<Rightarrow> d | Some v \<Rightarrow> if v then v else d)"

record searchArgs =
  o_maxResults :: "int jsprop"
  o_minWeight :: "real jsprop"
  o_includeSubconscious :: "bool jsprop"
  o_sortBy :: "string jsprop"

definition buildSearchOptions :: "searchArgs \<Rightarrow> searchOptions" where
  "buildSearchOptions options =
     \<lparr> maxResults = spread (o_maxResults options) (or_num (prop_value (o_maxResults options)) 20),
       minWeight = spread (o_minWeight options)
                     (or_num (prop_value (o_minWeight options)) subconscciousThreshold),
       includeSubconscious = spread (o_includeSubconscious options)
                     (or_bool (prop_value (o_includeSubconscious options)) False),
       sortBy = spread (o_sortBy options) (or_str (prop_value (o_sortBy options)) ''weight'') \<rparr>"

text \<open>\<^verbatim>\<open>_deduplicateMemories(memories) { return memories; }\<close>\<close>

definition deduplicateMemories :: "memory list \<Rightarrow> memory list" where
  "deduplicateMemories memories = memories"

text \<open>\<^verbatim>\<open>memory.weight >= searchOptions.minWeight\<close>: false against \<^verbatim>\<open>undefined\<close>.\<close>

definition weight_ge :: "real \<Rightarrow> real option \<Rightarrow> bool" where
  "weight_ge w t = (case t of None \<Rightarrow> False | Some x \<Rightarrow> w \<ge> x)"

text \<open>The comparator of the sort: the \<^verbatim>\<open>switch\<close> on \<^verbatim>\<open>searchOptions.sortBy\<close>.\<close>

definition compareMemories :: "string option \<Rightarrow> memory \<Rightarrow> memory \<Rightarrow> real" where
  "compareMemories sb a b =
     (if sb = Some ''weight'' then weight b - weight a
      else if sb = Some ''recent'' then real_of_int (lastAccessed b - lastAccessed a)
      else if sb = Some ''frequency'' then real_of_int (accessCount b - accessCount a)
      else weight b - weight a)"

text \<open>
  Everything \<^verbatim>\<open>searchMemories\<close> does with the six region answers:
  \<^verbatim>\<open>flat().filter(Boolean)\<close>, the deduplication, the weight filter, the sort and the
  \<^verbatim>\<open>slice(0, maxResults)\<close>.
\<close>

definition mergeResults :: "searchOptions \<Rightarrow> memory option list list \<Rightarrow> memory list" where
  "mergeResults so searchResults =
     (let allResults = List.map_filter (\<lambda>x. x) (concat searchResults);
          uniqueResults = deduplicateMemories allResults
      in slice0
           (sort_cmp (compareMemories (sortBy so))
              (filter (\<lambda>memory. weight_ge (weight memory) (minWeight so)) uniqueResults))
           (maxResults so))"

definition searchMemories ::
  "'s regions \<Rightarrow> 's manager \<Rightarrow> string \<Rightarrow> searchArgs \<Rightarrow> error + memory list" where
  "searchMemories R mgr query options =
     (if \<not> isInitialized mgr then Inl NotInitialized
      else
        let so = buildSearchOptions options in
        case collect (map (\<lambda>r. searchRegionContent R r query so (stores mgr)) all_regions) of
          Inl e \<Rightarrow> Inl e
        | Inr searchResults \<Rightarrow> Inr (mergeResults so searchResults))"

section \<open>performConsolidation\<close>

text \<open>
  \<^verbatim>\<open>Date.now()\<close> is read several times while one record is processed; the model reads
  the clock once per pass, as \<open>now\<close>.
\<close>

definition day_ms :: int where "day_ms = 24 * 60 * 60 * 1000"

definition calculateRecencyScore :: "int \<Rightarrow> memory \<Rightarrow> real" where
  "calculateRecencyScore now m =
     (let daysSinceCreated = real_of_int (now - created m) / real_of_int day_ms;
          daysSinceAccessed = real_of_int (now - lastAccessed m) / real_of_int day_ms
      in max 0 (1 - min daysSinceCreated daysSinceAccessed / 30))"

definition calculateImportance :: "int \<Rightarrow> memory \<Rightarrow> real" where
  "calculateImportance now m =
     (let recencyScore = calculateRecencyScore now m;
          frequencyScore = real_of_int (accessCount m) / 100;
          emotionalScore = or_num (Some (emotionalWeight m)) 0;
          semanticScore = or_num (Some (semanticWeight m)) 0
      in recencyScore * factor_recency + frequencyScore * factor_frequency
         + emotionalScore * factor_emotional + semanticScore * factor_semantic)"

definition isRecent :: "int \<Rightarrow> memory \<Rightarrow> int \<Rightarrow> bool" where
  "isRecent now m milliseconds = (now - lastAccessed m < milliseconds)"

text \<open>The branch on the kind of pass: what it does to the weight of one record.\<close>

definition strengthen :: "string \<Rightarrow> int \<Rightarrow> memory \<Rightarrow> memory" where
  "strengthen ctype now m =
     (let importance = calculateImportance now m in
      if ctype = ''sws'' then
        (if importance > 0.7 \<and> isRecent now m (24 * 60 * 60 * 1000)
         then m\<lparr> weight := min 1.0 (weight m + consolidationStrength) \<rparr> else m)
      else if ctype = ''rem'' then
        (if importance > 0.5
         then m\<lparr> weight := min 1.0 (weight m + consolidationStrength * 0.5) \<rparr> else m)
      else m)"

text \<open>The decay that follows in both kinds of pass.\<close>

definition applyDecay :: "int \<Rightarrow> memory \<Rightarrow> memory" where
  "applyDecay now m =
     (if \<not> isRecent now m (7 * 24 * 60 * 60 * 1000)
      then m\<lparr> weight := max 0.0 (weight m - decayRate) \<rparr> else m)"

definition consolidateMemory :: "string \<Rightarrow> int \<Rightarrow> memory \<Rightarrow> memory" where
  "consolidateMemory ctype now m = applyDecay now (strengthen ctype now m)"




section \<open>getMemoryStatistics\<close>

text \<open>
  The object \<^verbatim>\<open>_calculateWeightDistribution\<close> returns: for no memories it has no
  \<^verbatim>\<open>total\<close> field.
\<close>

record weightDistribution =
  average :: "real option"
  conscious :: nat
  accessible :: nat
  dormant :: nat
  total :: "nat option"

definition calculateWeightDistribution :: "memory list \<Rightarrow> weightDistribution" where
  "calculateWeightDistribution memories =
     (if length memories = 0
      then \<lparr> average = Some 0, conscious = 0, accessible = 0, dormant = 0, total = None \<rparr>
      else
        let totalWeight = foldl (\<lambda>sum m. sum + weight m) 0 memories in
        \<lparr> average = js_divide totalWeight (real (length memories)),
          conscious = length (filter (\<lambda>m. weight m \<ge> consciousThreshold) memories),
          accessible = length (filter (\<lambda>m. weight m \<ge> effortThreshold) memories),
          dormant = length (filter (\<lambda>m. weight m < subconscciousThreshold) memories),
          total = Some (length memories) \<rparr>)"

definition calculateAmplificationFactor :: "memory list \<Rightarrow> real" where
  "calculateAmplificationFactor memories =
     (let accessibleMemories = length (filter (\<lambda>m. weight m \<ge> effortThreshold) memories);
          baselineHuman = 100
      in max 1 (real accessibleMemories / baselineHuman))"

text \<open>
  The statistics object: the manager's counters, with \<^verbatim>\<open>totalMemories\<close> and
  \<^verbatim>\<open>averageWeight\<close> replaced by what the population gives.
\<close>

record statistics =
  st_totalMemories :: nat
  st_consciousMemories :: nat
  st_consolidationsPerformed :: nat
  st_lastConsolidation :: "int option"
  st_regionDistribution :: "nat list"
  st_weightDistribution :: weightDistribution
  st_averageWeight :: "real option"
  st_amplificationFactor :: real
  st_lastUpdated :: int

definition getMemoryStatistics :: "'s regions \<Rightarrow> 's manager \<Rightarrow> int \<Rightarrow> error + statistics" where
  "getMemoryStatistics R mgr now =
     (if \<not> isInitialized mgr then Inl NotInitialized
      else
        case collect (map (\<lambda>r. getRegionStats R r (stores mgr)) all_regions) of
          Inl e \<Rightarrow> Inl e
        | Inr regionStats \<Rightarrow>
            (case getAllMemoriesForConsolidation R (stores mgr) of
               Inl e \<Rightarrow> Inl e
             | Inr allMemories \<Rightarrow>
                 (let wd = calculateWeightDistribution allMemories in
                  Inr \<lparr> st_totalMemories = length allMemories,
                        st_consciousMemories = consciousMemories (stats mgr),
                        st_consolidationsPerformed = consolidationsPerformed (stats mgr),
                        st_lastConsolidation = lastConsolidation (stats mgr),
                        st_regionDistribution = regionStats,
                        st_weightDistribution = wd,
                        st_averageWeight = average wd,
                        st_amplificationFactor = calculateAmplificationFactor allMemories,
                        st_lastUpdated = now \<rparr>)))"

section \<open>The tool layer\<close>

text \<open>
  \<^verbatim>\<open>storeMemory(args)\<close> of \<^verbatim>\<open>neuromorphic-mcp-server.js\<close> builds the \<^verbatim>\<open>memoryData\<close> it
  passes to the manager from the tool's arguments. The embedding it adds is not read by
  the manager and is left out.
\<close>

record storeArgs =
  a_content :: string
  a_type :: "string option"
  a_initialWeight :: "real option"
  a_emotionalWeight :: "real option"
  a_semanticWeight :: "real option"
  a_tags :: "string list option"

definition toolMemoryData :: "storeArgs \<Rightarrow> string \<Rightarrow> memoryData" where
  "toolMemoryData args storedAt =
     \<lparr> md_content = a_content args,
       md_type = Some (or_str (a_type args) ''general''),
       md_initialWeight = Some (or_num (a_initialWeight args) 1.0),
       md_emotionalWeight = Some (or_num (a_emotionalWeight args) 0.5),
       md_semanticWeight = Some (or_num (a_semanticWeight args) 0.5),
       md_tags = Some (or_obj (a_tags args) []),
       md_metadata = Some [(''embeddingModel'', ''text-embedding-mxbai-embed-large-v1''),
                           (''storedAt'', storedAt)] \<rparr>"

section \<open>Concrete data\<close>

text \<open>
  The store call of the specification's scenario, a record as a region may hold it, and a
  caller's options object with no key set.
\<close>

definition hello_data :: memoryData where
  "hello_data =
     \<lparr> md_content = ''hello'', md_type = Some ''general'', md_initialWeight = Some 0.8,
       md_emotionalWeight = Some 0.5, md_semanticWeight = None, md_tags = None,
       md_metadata = None \<rparr>"

definition sample_memory :: "string \<Rightarrow> real \<Rightarrow> memory" where
  "sample_memory i w =
     \<lparr> mem_id = i, content = ''note'', mtype = ''general'', weight = w, created = 0,
       lastAccessed = 0, accessCount = 0, emotionalWeight = 0.5, semanticWeight = 0.5,
       tags = [], metadata = [] \<rparr>"

definition no_options :: searchArgs where
  "no_options =
     \<lparr> o_maxResults = Absent, o_minWeight = Absent, o_includeSubconscious = Absent,
       o_sortBy = Absent \<rparr>"

section \<open>Notions for the statements\<close>

text \<open>The key that the comparator of \<^verbatim>\<open>searchMemories\<close> compares, for each \<^verbatim>\<open>sortBy\<close>.\<close>

definition sort_key_of :: "string option \<Rightarrow> memory \<Rightarrow> real" where
  "sort_key_of sb m =
     (if sb = Some ''weight'' then weight m
      else if sb = Some ''recent'' then real_of_int (lastAccessed m)
      else if sb = Some ''frequency'' then real_of_int (accessCount m)
      else weight m)"

text \<open>
  The order that the specification asks of a result list, for comparison with the code:
  descending by the key, records of equal key by ascending id (ids compare as strings).
\<close>

definition spec_before :: "(memory \<Rightarrow> real) \<Rightarrow> memory \<Rightarrow> memory \<Rightarrow> bool" where
  "spec_before key a b = (key a > key b \<or> (key a = key b \<and> mem_id a \<le> mem_id b))"

section \<open>Auxiliary facts\<close>

lemmas js_defs = or_num_def or_str_def or_obj_def or_bool_def js_divide_def slice0_def
  spread_def prop_value_def weight_ge_def


lemmas data_defs = list_regions_def placeholder_regions_def initial_manager_def hello_data_def
  sample_memory_def no_options_def all_regions_def

lemma collect_map_Inr:
  "collect xs = Inr vs \<Longrightarrow> xs = map Inr vs"
  by (induction xs arbitrary: vs) (auto split: sum.splits)

lemma storeMemory_Inr:
  assumes "storeMemory R mgr d i now = Inr (i', mgr')"
  shows "i' = i \<and> distributeMemory R (newMemory d i now) (stores mgr) = Inr (stores mgr')"
  using assms
  by (auto simp: storeMemory_def Let_def newMemory_def split: if_splits sum.splits)

lemma find_not_None:
  "find (\<lambda>r. r \<noteq> None) xs = Some y \<Longrightarrow> y \<in> set xs \<and> y \<noteq> None"
  by (induction xs) (auto split: if_splits)

lemma searchAllRegions_answer:
  assumes "searchAllRegions R i s = Inr results" and "Some m \<in> set results"
  shows "\<exists>r. searchRegion R r i s = Inr (Some m)"
proof -
  from assms(1) have "map (\<lambda>r. searchRegion R r i s) all_regions = map Inr results"
    unfolding searchAllRegions_def by (rule collect_map_Inr)
  moreover from assms(2) have "Inr (Some m) \<in> set (map Inr results :: (error + memory option) list)"
    by auto
  ultimately have "Inr (Some m) \<in> set (map (\<lambda>r. searchRegion R r i s) all_regions)"
    by simp
  then show ?thesis by auto
qed

lemma retrieveMemory_Some:
  assumes "retrieveMemory R mgr i now = Inr (Some m', mgr')"
  shows "\<exists>results m. searchAllRegions R i (stores mgr) = Inr results
            \<and> find (\<lambda>r. r \<noteq> None) results = Some (Some m)
            \<and> m' = reinforce now m
            \<and> updateMemoryAcrossRegions R m' (stores mgr) = Inr (stores mgr')
            \<and> mgr' = mgr\<lparr>stores := stores mgr'\<rparr>"
  using assms
  by (auto simp: retrieveMemory_def Let_def split: if_splits sum.splits option.splits)

lemma reinforce_range:
  "0 \<le> weight m \<Longrightarrow> 0 \<le> weight (reinforce now m) \<and> weight (reinforce now m) \<le> 1"
  by (simp add: reinforce_def)

lemma strengthen_range:
  "0 \<le> weight m \<Longrightarrow> weight m \<le> 1
     \<Longrightarrow> 0 \<le> weight (strengthen ctype now m) \<and> weight (strengthen ctype now m) \<le> 1"
  by (simp add: strengthen_def Let_def consolidationStrength_def)


lemma applyDecay_range:
  "0 \<le> weight m \<Longrightarrow> weight m \<le> 1
     \<Longrightarrow> 0 \<le> weight (applyDecay now m) \<and> weight (applyDecay now m) \<le> 1"
  by (simp add: applyDecay_def decayRate_def)

lemma consolidateMemory_range:
  "0 \<le> weight m \<Longrightarrow> weight m \<le> 1
     \<Longrightarrow> 0 \<le> weight (consolidateMemory ctype now m) \<and> weight (consolidateMemory ctype now m) \<le> 1"
  unfolding consolidateMemory_def
  using strengthen_range applyDecay_range by blast

lemma newMemory_range:
  "(case md_initialWeight d of None \<Rightarrow> True | Some w \<Rightarrow> 0 \<le> w \<and> w \<le> 1)
     \<Longrightarrow> 0 \<le> weight (newMemory d i now) \<and> weight (newMemory d i now) \<le> 1"
  by (auto simp: newMemory_def or_num_def split: option.splits)

lemma insert_cmp_insort:
  "insert_cmp (compareMemories sb) x ys = insort_key (\<lambda>m. - sort_key_of sb m) x ys"
  by (induction ys) (auto simp: compareMemories_def sort_key_of_def)

lemma sort_cmp_sort_key:
  "sort_cmp (compareMemories sb) xs = sort_key (\<lambda>m. - sort_key_of sb m) xs"
  by (induction xs) (simp_all add: sort_cmp_def insert_cmp_insort sort_key_def)

lemma sort_cmp_sorted:
  "sorted_wrt (\<lambda>a b. sort_key_of sb a \<ge> sort_key_of sb b) (sort_cmp (compareMemories sb) xs)"
proof -
  have "sorted (map (\<lambda>m. - sort_key_of sb m) (sort_key (\<lambda>m. - sort_key_of sb m) xs))"
    by (rule sorted_sort_key)
  then show ?thesis
    by (simp add: sort_cmp_sort_key sorted_map)
qed

lemma sort_cmp_stable:
  "filter (\<lambda>m. sort_key_of sb m = k) (sort_cmp (compareMemories sb) xs)
     = filter (\<lambda>m. sort_key_of sb m = k) xs"
proof -
  have "filter (\<lambda>m. - sort_key_of sb m = - k) (sort_key (\<lambda>m. - sort_key_of sb m) xs)
          = filter (\<lambda>m. - sort_key_of sb m = - k) xs"
    by (rule sort_key_stable)
  then show ?thesis by (simp add: sort_cmp_sort_key)
qed

lemma sort_cmp_set: "set (sort_cmp (compareMemories sb) xs) = set xs"
  by (simp add: sort_cmp_sort_key)

lemma sort_cmp_length: "length (sort_cmp (compareMemories sb) xs) = length xs"
  by (simp add: sort_cmp_sort_key)

lemma slice0_prefix: "prefix (slice0 xs e) xs"
  by (auto simp: slice0_def take_is_prefix split: option.splits)

lemma slice0_length: "0 \<le> n \<Longrightarrow> length (slice0 xs (Some n)) \<le> nat n"
  by (simp add: slice0_def)

lemma sorted_wrt_prefix: "prefix xs ys \<Longrightarrow> sorted_wrt P ys \<Longrightarrow> sorted_wrt P xs"
  by (auto simp: prefix_def sorted_wrt_append)


lemma mergeResults_subset:
  "set (mergeResults so answers) \<subseteq> {m. Some m \<in> set (concat answers)}"
proof -
  have "set (slice0 xs e) \<subseteq> set xs" for xs :: "memory list" and e
    by (auto simp: slice0_def split: option.splits dest: in_set_takeD)
  moreover have "set (sort_cmp (compareMemories sb) xs) = set xs" for sb xs
    by (simp add: sort_cmp_sort_key)
  ultimately show ?thesis
    unfolding mergeResults_def Let_def deduplicateMemories_def
    by (fastforce simp: List.map_filter_def)
qed

lemma searchMemories_from_regions:
  assumes "searchMemories R mgr q opts = Inr rs" and "m \<in> set rs"
  shows "\<exists>r ms. searchRegionContent R r q (buildSearchOptions opts) (stores mgr) = Inr ms
           \<and> Some m \<in> set ms"
proof -
  from assms(1) obtain answers where
    c: "collect (map (\<lambda>r. searchRegionContent R r q (buildSearchOptions opts) (stores mgr)) all_regions) = Inr answers"
    and rs: "rs = mergeResults (buildSearchOptions opts) answers"
    by (auto simp: searchMemories_def Let_def split: if_splits sum.splits)
  from assms(2) rs mergeResults_subset have "Some m \<in> set (concat answers)" by blast
  then obtain ms where ms: "ms \<in> set answers" "Some m \<in> set ms" by auto
  from c have "map (\<lambda>r. searchRegionContent R r q (buildSearchOptions opts) (stores mgr)) all_regions
                 = map Inr answers"
    by (rule collect_map_Inr)
  moreover from ms(1) have "Inr ms \<in> set (map Inr answers :: (error + memory option list) list)"
    by auto
  ultimately have "Inr ms \<in> set (map (\<lambda>r. searchRegionContent R r q (buildSearchOptions opts) (stores mgr)) all_regions)"
    by simp
  then obtain r where "Inr ms = searchRegionContent R r q (buildSearchOptions opts) (stores mgr)"
    by auto
  then have "searchRegionContent R r q (buildSearchOptions opts) (stores mgr) = Inr ms"
    by simp
  with ms(2) show ?thesis by blast
qed





section \<open>The weight of a new record\<close>

text \<open>
  Claim C1, as the code has it. \<^verbatim>\<open>storeMemory\<close> takes no importance: the weight of the
  record it creates is the caller's \<^verbatim>\<open>initialWeight\<close> when that is present and not 0,
  and 1.0 otherwise, whatever \<^verbatim>\<open>emotionalWeight\<close> is, and this record is the one handed
  to the regions. The formula \<open>min(1.0, 0.6 + 0.3 * importance + 0.1 * emotional)\<close> is
  what \<^verbatim>\<open>calculateMemoryWeight\<close> of \<^verbatim>\<open>NeuromorphicBrain\<close> computes. For the scenario
  (\<^verbatim>\<open>"hello"\<close>, general, 0.8, 0.5) the stored weight is 0.8; the formula gives 0.89.
\<close>

theorem store_weight_is_initialWeight:
  "weight (newMemory d i now)
     = (case md_initialWeight d of None \<Rightarrow> 1 | Some w \<Rightarrow> if w = 0 then 1 else w)
   \<and> (storeMemory R mgr d i now = Inr (i', mgr')
        \<longrightarrow> distributeMemory R (newMemory d i now) (stores mgr) = Inr (stores mgr'))
   \<and> calculateMemoryWeight c (Some importance) (Some emotional)
        = min 1 (0.6 + 0.3 * importance + 0.1 * emotional)"
proof -
  have "weight (newMemory d i now)
     = (case md_initialWeight d of None \<Rightarrow> 1 | Some w \<Rightarrow> if w = 0 then 1 else w)"
    by (simp add: newMemory_def or_num_def split: option.splits)
  moreover have "calculateMemoryWeight c (Some importance) (Some emotional)
        = min 1 (0.6 + 0.3 * importance + 0.1 * emotional)"
    by (simp add: calculateMemoryWeight_def or_obj_def mult.commute)
  ultimately show ?thesis
    using storeMemory_Inr by blast
qed

theorem store_weight_is_initialWeight_witness:
  "storeMemory (list_regions all_regions) (initial_manager []) hello_data ''mem_1'' 1000
     = Inr (''mem_1'',
            \<lparr> isInitialized = True,
              stats = \<lparr> totalMemories = 1, consciousMemories = 1, consolidationsPerformed = 0,
                        lastConsolidation = None, averageWeight = 0 \<rparr>,
              stores = [newMemory hello_data ''mem_1'' 1000] \<rparr>)
   \<and> distributeMemory (list_regions all_regions) (newMemory hello_data ''mem_1'' 1000) []
       = Inr [newMemory hello_data ''mem_1'' 1000]
   \<and> weight (newMemory hello_data ''mem_1'' 1000) = 0.8
   \<and> calculateMemoryWeight ''hello'' (Some 0.8) (Some 0.5) = 0.89"
proof -
  have s: "storeMemory (list_regions all_regions) (initial_manager []) hello_data ''mem_1'' 1000
     = Inr (''mem_1'',
            \<lparr> isInitialized = True,
              stats = \<lparr> totalMemories = 1, consciousMemories = 1, consolidationsPerformed = 0,
                        lastConsolidation = None, averageWeight = 0 \<rparr>,
              stores = [newMemory hello_data ''mem_1'' 1000] \<rparr>)"
    by (simp add: storeMemory_def data_defs newMemory_def js_defs consciousThreshold_def)
  have i: "stores (initial_manager ([]::memory list)) = []"
    by (simp add: initial_manager_def)
  show ?thesis
    using s i store_weight_is_initialWeight
      [of hello_data "''mem_1''" 1000 "list_regions all_regions" "initial_manager []" "''mem_1''"
        "\<lparr> isInitialized = True,
              stats = \<lparr> totalMemories = 1, consciousMemories = 1, consolidationsPerformed = 0,
                        lastConsolidation = None, averageWeight = 0 \<rparr>,
              stores = [newMemory hello_data ''mem_1'' 1000] \<rparr>" "''hello''" "0.8" "0.5"]
    by (simp add: hello_data_def)
qed

theorem store_weight_formula_counterexample:
  "weight (newMemory hello_data ''mem_1'' 1000) = 0.8
   \<and> min 1 (0.6 + 0.3 * 0.8 + 0.1 * 0.5) = (0.89::real)
   \<and> weight (newMemory hello_data ''mem_1'' 1000) \<noteq> min 1 (0.6 + 0.3 * 0.8 + 0.1 * 0.5)"
  by (simp add: newMemory_def hello_data_def or_num_def)

section \<open>The range of the weight\<close>

text \<open>
  Claim C2, as the code has it. \<^verbatim>\<open>storeMemory\<close> neither checks nor clamps the caller's
  \<^verbatim>\<open>initialWeight\<close>: the new record's weight is in [0, 1] when the caller's value, if
  there is one, is in [0, 1]. \<^verbatim>\<open>retrieveMemory\<close> returns a weight in [0, 1] when the
  regions answer with weights in [0, 1]; one consolidation of a record keeps a weight in
  [0, 1] there, for every kind of pass; and \<^verbatim>\<open>searchMemories\<close> returns records as the
  regions gave them, so it changes no weight.
\<close>

theorem weight_stays_in_range:
  "((case md_initialWeight d of None \<Rightarrow> True | Some w \<Rightarrow> 0 \<le> w \<and> w \<le> 1)
      \<longrightarrow> 0 \<le> weight (newMemory d i now) \<and> weight (newMemory d i now) \<le> 1)
   \<and> (retrieveMemory R mgr i now = Inr (Some m', mgr')
        \<and> (\<forall>r m. searchRegion R r i (stores mgr) = Inr (Some m) \<longrightarrow> 0 \<le> weight m \<and> weight m \<le> 1)
      \<longrightarrow> 0 \<le> weight m' \<and> weight m' \<le> 1)
   \<and> (0 \<le> weight m \<and> weight m \<le> 1
      \<longrightarrow> 0 \<le> weight (consolidateMemory ctype now m) \<and> weight (consolidateMemory ctype now m) \<le> 1)
   \<and> (searchMemories S smgr q opts = Inr rs \<and> x \<in> set rs
      \<longrightarrow> (\<exists>r ms. searchRegionContent S r q (buildSearchOptions opts) (stores smgr) = Inr ms
                   \<and> Some x \<in> set ms))"
proof -
  have retrieve: "0 \<le> weight m' \<and> weight m' \<le> 1"
    if r: "retrieveMemory R mgr i now = Inr (Some m', mgr')"
    and a: "\<forall>r m. searchRegion R r i (stores mgr) = Inr (Some m) \<longrightarrow> 0 \<le> weight m \<and> weight m \<le> 1"
  proof -
    from retrieveMemory_Some [OF r] obtain results m0 where
      s: "searchAllRegions R i (stores mgr) = Inr results"
      and f: "find (\<lambda>r. r \<noteq> None) results = Some (Some m0)"
      and m': "m' = reinforce now m0"
      by blast
    from find_not_None [OF f] have "Some m0 \<in> set results" by simp
    from searchAllRegions_answer [OF s this] a have "0 \<le> weight m0" by blast
    with m' show ?thesis using reinforce_range by blast
  qed
  show ?thesis
    using newMemory_range retrieve consolidateMemory_range searchMemories_from_regions
    by blast
qed

theorem weight_stays_in_range_witness:
  "0 \<le> weight (newMemory hello_data ''mem_1'' 2000)
   \<and> weight (newMemory hello_data ''mem_1'' 2000) \<le> 1
   \<and> retrieveMemory (list_regions all_regions)
        (initial_manager [sample_memory ''mem_1'' 0.995]) ''mem_1'' 2000
      = Inr (Some ((sample_memory ''mem_1'' 1)\<lparr>lastAccessed := 2000, accessCount := 1\<rparr>),
             initial_manager [(sample_memory ''mem_1'' 1)\<lparr>lastAccessed := 2000, accessCount := 1\<rparr>])
   \<and> weight ((sample_memory ''mem_1'' 1)\<lparr>lastAccessed := 2000, accessCount := 1\<rparr>) \<le> 1
   \<and> 0 \<le> weight (consolidateMemory ''sws'' 2000 (sample_memory ''mem_1'' 0.995))
   \<and> weight (consolidateMemory ''sws'' 2000 (sample_memory ''mem_1'' 0.995)) \<le> 1
   \<and> searchMemories (list_regions [Hippocampus]) (initial_manager [sample_memory ''mem_1'' 0.995])
        ''note'' no_options = Inr [sample_memory ''mem_1'' 0.995]
   \<and> searchRegionContent (list_regions [Hippocampus]) Hippocampus ''note''
        (buildSearchOptions no_options) [sample_memory ''mem_1'' 0.995]
      = Inr [Some (sample_memory ''mem_1'' 0.995)]"
proof -
  let ?m = "sample_memory ''mem_1'' 0.995"
  let ?m' = "(sample_memory ''mem_1'' 1)\<lparr>lastAccessed := 2000, accessCount := 1\<rparr>"
  have d: "case md_initialWeight hello_data of None \<Rightarrow> True | Some w \<Rightarrow> 0 \<le> w \<and> w \<le> 1"
    by (simp add: hello_data_def)
  have r: "retrieveMemory (list_regions all_regions) (initial_manager [?m]) ''mem_1'' 2000
             = Inr (Some ?m', initial_manager [?m'])"
    by (simp add: retrieveMemory_def searchAllRegions_def reinforce_def data_defs Let_def)
  have a: "\<forall>r m. searchRegion (list_regions all_regions) r ''mem_1'' (stores (initial_manager [?m]))
             = Inr (Some m) \<longrightarrow> 0 \<le> weight m \<and> weight m \<le> 1"
    by (auto simp: data_defs split: if_splits)
  have w: "0 \<le> weight ?m \<and> weight ?m \<le> 1"
    by (simp add: sample_memory_def)
  have s: "searchMemories (list_regions [Hippocampus]) (initial_manager [?m]) ''note'' no_options
             = Inr [?m]"
    by (simp add: searchMemories_def buildSearchOptions_def mergeResults_def
        deduplicateMemories_def List.map_filter_def sort_cmp_def data_defs js_defs Let_def
        subconscciousThreshold_def)
  have c: "searchRegionContent (list_regions [Hippocampus]) Hippocampus ''note''
        (buildSearchOptions no_options) [?m] = Inr [Some ?m]"
    by (simp add: list_regions_def)
  note T = weight_stays_in_range [of hello_data "''mem_1''" 2000 "list_regions all_regions"
        "initial_manager [?m]" ?m' "initial_manager [?m']" ?m "''sws''"
        "list_regions [Hippocampus]" "initial_manager [?m]" "''note''" no_options "[?m]" ?m]
  from T d have p1: "0 \<le> weight (newMemory hello_data ''mem_1'' 2000)
      \<and> weight (newMemory hello_data ''mem_1'' 2000) \<le> 1"
    by blast
  from T r a have p2: "weight ?m' \<le> 1"
    by blast
  from T w have p3: "0 \<le> weight (consolidateMemory ''sws'' 2000 ?m)
      \<and> weight (consolidateMemory ''sws'' 2000 ?m) \<le> 1"
    by blast
  from p1 r p2 p3 s c show ?thesis
    by blast
qed

theorem store_weight_out_of_range_counterexample:
  "storeMemory (list_regions all_regions) (initial_manager [])
      (hello_data\<lparr>md_initialWeight := Some 5\<rparr>) ''mem_1'' 1000
     = Inr (''mem_1'',
            \<lparr> isInitialized = True,
              stats = \<lparr> totalMemories = 1, consciousMemories = 1, consolidationsPerformed = 0,
                        lastConsolidation = None, averageWeight = 0 \<rparr>,
              stores = [(newMemory hello_data ''mem_1'' 1000)\<lparr>weight := 5\<rparr>] \<rparr>)
   \<and> \<not> weight ((newMemory hello_data ''mem_1'' 1000)\<lparr>weight := 5\<rparr>) \<le> 1"
  by (simp add: storeMemory_def data_defs newMemory_def js_defs consciousThreshold_def Let_def)

section \<open>Retrieval\<close>

text \<open>
  Claim C3, as the code has it. When \<^verbatim>\<open>retrieveMemory(id)\<close> succeeds and the first region
  answer is the record as \<^verbatim>\<open>storeMemory\<close> created it (never accessed since), the record
  returned has the id, content, type and tags of the store call (type \<^verbatim>\<open>'general'\<close> and
  no tags when none were given), access count 1, and weight \<open>min(1.0, w + 0.01)\<close> where
  \<open>w\<close> is the weight at creation, \<^verbatim>\<open>initialWeight || 1.0\<close>: the retrieval itself
  reinforces. Whether a stored record reaches a region is the regions' business and is
  left open here.
\<close>

theorem retrieve_of_stored_record:
  assumes "retrieveMemory R mgr i now = Inr (Some m', mgr')"
    and "searchAllRegions R i (stores mgr) = Inr results"
    and "find (\<lambda>r. r \<noteq> None) results = Some (Some (newMemory d i t0))"
  shows "mem_id m' = i \<and> content m' = md_content d \<and> mtype m' = or_str (md_type d) ''general''
     \<and> tags m' = or_obj (md_tags d) []
     \<and> weight m' = min 1 (weight (newMemory d i t0) + 0.01)
     \<and> weight (newMemory d i t0) = or_num (md_initialWeight d) 1
     \<and> accessCount m' = 1"
proof -
  from retrieveMemory_Some [OF assms(1)] assms(2,3)
  have "m' = reinforce now (newMemory d i t0)"
    by auto
  then show ?thesis
    by (simp add: reinforce_def newMemory_def)
qed

theorem retrieve_of_stored_record_witness:
  "retrieveMemory (list_regions all_regions)
      (initial_manager [newMemory hello_data ''mem_1'' 1000]) ''mem_1'' 2000
     = Inr (Some \<lparr> mem_id = ''mem_1'', content = ''hello'', mtype = ''general'', weight = 0.81,
                   created = 1000, lastAccessed = 2000, accessCount = 1, emotionalWeight = 0.5,
                   semanticWeight = 0.5, tags = [], metadata = [] \<rparr>,
            initial_manager
              [\<lparr> mem_id = ''mem_1'', content = ''hello'', mtype = ''general'', weight = 0.81,
                 created = 1000, lastAccessed = 2000, accessCount = 1, emotionalWeight = 0.5,
                 semanticWeight = 0.5, tags = [], metadata = [] \<rparr>])
   \<and> searchAllRegions (list_regions all_regions) ''mem_1'' [newMemory hello_data ''mem_1'' 1000]
       = Inr (replicate 6 (Some (newMemory hello_data ''mem_1'' 1000)))
   \<and> weight (newMemory hello_data ''mem_1'' 1000) = 0.8
   \<and> min 1 (weight (newMemory hello_data ''mem_1'' 1000) + 0.01) = 0.81"
proof -
  let ?m0 = "newMemory hello_data ''mem_1'' 1000"
  let ?m1 = "\<lparr> mem_id = ''mem_1'', content = ''hello'', mtype = ''general'', weight = 0.81,
                   created = 1000, lastAccessed = 2000, accessCount = 1, emotionalWeight = 0.5,
                   semanticWeight = 0.5, tags = [], metadata = [] \<rparr>"
  have r: "retrieveMemory (list_regions all_regions) (initial_manager [?m0]) ''mem_1'' 2000
             = Inr (Some ?m1, initial_manager [?m1])"
    by (simp add: retrieveMemory_def searchAllRegions_def reinforce_def newMemory_def data_defs
        js_defs Let_def)
  have s: "searchAllRegions (list_regions all_regions) ''mem_1'' (stores (initial_manager [?m0]))
             = Inr (replicate 6 (Some ?m0))"
    by (simp add: searchAllRegions_def newMemory_def data_defs numeral_eq_Suc)
  have f: "find (\<lambda>r. r \<noteq> None) (replicate 6 (Some ?m0)) = Some (Some ?m0)"
    by (simp add: numeral_eq_Suc)
  have st: "stores (initial_manager [?m0]) = [?m0]"
    by (simp add: initial_manager_def)
  from retrieve_of_stored_record [OF r s f]
  have "weight ?m1 = min 1 (weight ?m0 + 0.01) \<and> weight ?m0 = or_num (md_initialWeight hello_data) 1"
    by blast
  then have "min 1 (weight ?m0 + 0.01) = 0.81 \<and> weight ?m0 = 0.8"
    by (simp add: hello_data_def or_num_def)
  with r s st show ?thesis
    by simp
qed

theorem retrieve_after_store_counterexample:
  "storeMemory placeholder_regions (initial_manager ()) hello_data ''mem_1'' 1000
     = Inr (''mem_1'',
            \<lparr> isInitialized = True,
              stats = \<lparr> totalMemories = 1, consciousMemories = 1, consolidationsPerformed = 0,
                        lastConsolidation = None, averageWeight = 0 \<rparr>,
              stores = () \<rparr>)
   \<and> retrieveMemory placeholder_regions
        \<lparr> isInitialized = True,
          stats = \<lparr> totalMemories = 1, consciousMemories = 1, consolidationsPerformed = 0,
                    lastConsolidation = None, averageWeight = 0 \<rparr>,
          stores = () \<rparr> ''mem_1'' 2000
     = Inr (None,
            \<lparr> isInitialized = True,
              stats = \<lparr> totalMemories = 1, consciousMemories = 1, consolidationsPerformed = 0,
                        lastConsolidation = None, averageWeight = 0 \<rparr>,
              stores = () \<rparr>)
   \<and> storeMemory (list_regions all_regions) (initial_manager []) hello_data ''mem_1'' 1000
     = Inr (''mem_1'',
            \<lparr> isInitialized = True,
              stats = \<lparr> totalMemories = 1, consciousMemories = 1, consolidationsPerformed = 0,
                        lastConsolidation = None, averageWeight = 0 \<rparr>,
              stores = [newMemory hello_data ''mem_1'' 1000] \<rparr>)
   \<and> weight (newMemory hello_data ''mem_1'' 1000) = 0.8
   \<and> retrieveMemory (list_regions all_regions)
        \<lparr> isInitialized = True,
          stats = \<lparr> totalMemories = 1, consciousMemories = 1, consolidationsPerformed = 0,
                    lastConsolidation = None, averageWeight = 0 \<rparr>,
          stores = [newMemory hello_data ''mem_1'' 1000] \<rparr> ''mem_1'' 2000
     = Inr (Some \<lparr> mem_id = ''mem_1'', content = ''hello'', mtype = ''general'', weight = 0.81,
                   created = 1000, lastAccessed = 2000, accessCount = 1, emotionalWeight = 0.5,
                   semanticWeight = 0.5, tags = [], metadata = [] \<rparr>,
            \<lparr> isInitialized = True,
              stats = \<lparr> totalMemories = 1, consciousMemories = 1, consolidationsPerformed = 0,
                        lastConsolidation = None, averageWeight = 0 \<rparr>,
              stores = [\<lparr> mem_id = ''mem_1'', content = ''hello'', mtype = ''general'',
                          weight = 0.81, created = 1000, lastAccessed = 2000, accessCount = 1,
                          emotionalWeight = 0.5, semanticWeight = 0.5, tags = [],
                          metadata = [] \<rparr>] \<rparr>)"
  by (simp add: storeMemory_def retrieveMemory_def searchAllRegions_def reinforce_def newMemory_def
      data_defs js_defs consciousThreshold_def Let_def)

text \<open>
  Claim C4. A successful \<^verbatim>\<open>retrieveMemory\<close> found its record \<open>m\<close> as the first region
  answer that is not \<^verbatim>\<open>null\<close>; it returns \<open>m\<close> with \<^verbatim>\<open>lastAccessed\<close> set to the
  time of the call, \<^verbatim>\<open>accessCount\<close> one higher and weight \<open>min(1.0, weight m + 0.01)\<close>,
  and has handed exactly this record to \<^verbatim>\<open>_updateMemoryAcrossRegions\<close>, whose result is
  the new state of the stores.
\<close>

theorem retrieve_reinforces_and_writes_back:
  assumes "retrieveMemory R mgr i now = Inr (Some m', mgr')"
  shows "\<exists>results m. searchAllRegions R i (stores mgr) = Inr results
            \<and> find (\<lambda>r. r \<noteq> None) results = Some (Some m)
            \<and> m' = m\<lparr> lastAccessed := now, accessCount := accessCount m + 1,
                       weight := min 1 (weight m + 0.01) \<rparr>
            \<and> updateMemoryAcrossRegions R m' (stores mgr) = Inr (stores mgr')"
  using retrieveMemory_Some [OF assms]
  by (auto simp: reinforce_def)

theorem retrieve_reinforces_and_writes_back_witness:
  "retrieveMemory (list_regions all_regions)
      (initial_manager [sample_memory ''mem_1'' 0.5, sample_memory ''mem_2'' 0.995]) ''mem_2'' 2000
     = Inr (Some ((sample_memory ''mem_2'' 1)\<lparr>lastAccessed := 2000, accessCount := 1\<rparr>),
            initial_manager [sample_memory ''mem_1'' 0.5,
              (sample_memory ''mem_2'' 1)\<lparr>lastAccessed := 2000, accessCount := 1\<rparr>])
   \<and> (\<exists>results m.
         searchAllRegions (list_regions all_regions) ''mem_2''
           [sample_memory ''mem_1'' 0.5, sample_memory ''mem_2'' 0.995] = Inr results
         \<and> find (\<lambda>r. r \<noteq> None) results = Some (Some m)
         \<and> (sample_memory ''mem_2'' 1)\<lparr>lastAccessed := 2000, accessCount := 1\<rparr>
             = m\<lparr> lastAccessed := 2000, accessCount := accessCount m + 1,
                  weight := min 1 (weight m + 0.01) \<rparr>
         \<and> updateMemoryAcrossRegions (list_regions all_regions)
              ((sample_memory ''mem_2'' 1)\<lparr>lastAccessed := 2000, accessCount := 1\<rparr>)
              [sample_memory ''mem_1'' 0.5, sample_memory ''mem_2'' 0.995]
             = Inr [sample_memory ''mem_1'' 0.5,
                    (sample_memory ''mem_2'' 1)\<lparr>lastAccessed := 2000, accessCount := 1\<rparr>])"
proof -
  let ?s = "[sample_memory ''mem_1'' 0.5, sample_memory ''mem_2'' 0.995]"
  let ?m' = "(sample_memory ''mem_2'' 1)\<lparr>lastAccessed := 2000, accessCount := 1\<rparr>"
  have r: "retrieveMemory (list_regions all_regions) (initial_manager ?s) ''mem_2'' 2000
             = Inr (Some ?m', initial_manager [sample_memory ''mem_1'' 0.5, ?m'])"
    by (simp add: retrieveMemory_def searchAllRegions_def reinforce_def data_defs Let_def)
  have st: "stores (initial_manager ?s) = ?s"
       "stores (initial_manager [sample_memory ''mem_1'' 0.5, ?m']) = [sample_memory ''mem_1'' 0.5, ?m']"
    by (simp_all add: initial_manager_def)
  from retrieve_reinforces_and_writes_back [OF r] r show ?thesis
    unfolding st by blast
qed

section \<open>Search\<close>

text \<open>
  Claim C5 asks that no id occurs twice in a search result. \<^verbatim>\<open>searchMemories\<close> calls
  \<^verbatim>\<open>_deduplicateMemories\<close> under the comment \<^verbatim>\<open>// Merge and deduplicate results\<close>, but
  that method returns its argument unchanged: when three regions answer with the same
  record, the result lists it three times.
\<close>

theorem search_keeps_duplicates:
  "searchMemories (list_regions [Hippocampus, Neocortex, Amygdala])
      (initial_manager [sample_memory ''mem_1'' 0.9]) ''note'' no_options
     = Inr [sample_memory ''mem_1'' 0.9, sample_memory ''mem_1'' 0.9, sample_memory ''mem_1'' 0.9]
   \<and> deduplicateMemories
        [sample_memory ''mem_1'' 0.9, sample_memory ''mem_1'' 0.9, sample_memory ''mem_1'' 0.9]
     = [sample_memory ''mem_1'' 0.9, sample_memory ''mem_1'' 0.9, sample_memory ''mem_1'' 0.9]"
  by (simp add: searchMemories_def buildSearchOptions_def mergeResults_def
        deduplicateMemories_def List.map_filter_def sort_cmp_def compareMemories_def data_defs
        js_defs subconscciousThreshold_def Let_def)

text \<open>
  Claim C6, as the code has it. The result of \<^verbatim>\<open>searchMemories\<close> is sorted descending by
  the key that \<^verbatim>\<open>sortBy\<close> selects (\<^verbatim>\<open>lastAccessed\<close> for \<^verbatim>\<open>'recent'\<close>,
  \<^verbatim>\<open>accessCount\<close> for \<^verbatim>\<open>'frequency'\<close>, the weight otherwise). The comparator looks at
  nothing but that key, so records of equal key keep the order in which the regions'
  answers arrived: for every key value \<open>k\<close>, the records of the result with key \<open>k\<close>
  are an initial part of the arriving records with key \<open>k\<close> (those that pass the weight
  filter). The result has at most \<^verbatim>\<open>maxResults\<close> entries when the caller gives a limit
  that is not negative, and at most 20 when the caller gives none.
\<close>

theorem search_sorted_stable_limited:
  assumes "searchMemories R mgr q opts = Inr rs"
    and "collect (map (\<lambda>r. searchRegionContent R r q (buildSearchOptions opts) (stores mgr))
           all_regions) = Inr answers"
  shows "sorted_wrt (\<lambda>a b. sort_key_of (sortBy (buildSearchOptions opts)) a
                            \<ge> sort_key_of (sortBy (buildSearchOptions opts)) b) rs
     \<and> prefix (filter (\<lambda>m. sort_key_of (sortBy (buildSearchOptions opts)) m = k) rs)
          (filter (\<lambda>m. sort_key_of (sortBy (buildSearchOptions opts)) m = k)
             (filter (\<lambda>m. weight_ge (weight m) (minWeight (buildSearchOptions opts)))
                (List.map_filter (\<lambda>x. x) (concat answers))))
     \<and> (o_maxResults opts = Given n \<and> 0 \<le> n \<longrightarrow> length rs \<le> nat n)
     \<and> (o_maxResults opts = Absent \<longrightarrow> length rs \<le> 20)"
proof -
  let ?so = "buildSearchOptions opts"
  let ?cands = "filter (\<lambda>m. weight_ge (weight m) (minWeight ?so))
                  (List.map_filter (\<lambda>x. x) (concat answers))"
  let ?sorted = "sort_cmp (compareMemories (sortBy ?so)) ?cands"
  from assms have rs: "rs = slice0 ?sorted (maxResults ?so)"
    by (auto simp: searchMemories_def mergeResults_def deduplicateMemories_def Let_def
        split: if_splits)
  have p: "prefix rs ?sorted"
    unfolding rs by (rule slice0_prefix)
  have 1: "sorted_wrt (\<lambda>a b. sort_key_of (sortBy ?so) a \<ge> sort_key_of (sortBy ?so) b) rs"
    using p sort_cmp_sorted by (rule sorted_wrt_prefix)
  have "prefix (filter (\<lambda>m. sort_key_of (sortBy ?so) m = k) rs)
          (filter (\<lambda>m. sort_key_of (sortBy ?so) m = k) ?sorted)"
    using p by (rule filter_mono_prefix)
  then have 2: "prefix (filter (\<lambda>m. sort_key_of (sortBy ?so) m = k) rs)
          (filter (\<lambda>m. sort_key_of (sortBy ?so) m = k) ?cands)"
    by (simp only: sort_cmp_stable)
  have 3: "length rs \<le> nat n" if "o_maxResults opts = Given n" "0 \<le> n"
  proof -
    from that have "maxResults ?so = Some n"
      by (simp add: buildSearchOptions_def spread_def)
    with that rs show ?thesis
      using slice0_length by simp
  qed
  have 4: "length rs \<le> 20" if "o_maxResults opts = Absent"
  proof -
    from that have "maxResults ?so = Some 20"
      by (simp add: buildSearchOptions_def spread_def prop_value_def or_num_def)
    with rs have "length rs \<le> nat 20"
      using slice0_length [of 20 ?sorted] by simp
    then show ?thesis by simp
  qed
  from 1 2 3 4 show ?thesis by blast
qed


theorem search_sorted_stable_limited_witness:
  "searchMemories (list_regions [Hippocampus])
      (initial_manager [sample_memory ''b'' 0.5, sample_memory ''c'' 0.9, sample_memory ''a'' 0.5])
      ''note'' (no_options\<lparr>o_maxResults := Given 2\<rparr>)
     = Inr [sample_memory ''c'' 0.9, sample_memory ''b'' 0.5]
   \<and> sorted_wrt (\<lambda>a b. weight a \<ge> weight b) [sample_memory ''c'' 0.9, sample_memory ''b'' 0.5]
   \<and> prefix (filter (\<lambda>m. weight m = 0.5) [sample_memory ''c'' 0.9, sample_memory ''b'' 0.5])
        (filter (\<lambda>m. weight m = 0.5)
           [sample_memory ''b'' 0.5, sample_memory ''c'' 0.9, sample_memory ''a'' 0.5])
   \<and> length [sample_memory ''c'' 0.9, sample_memory ''b'' 0.5] \<le> nat 2
   \<and> searchMemories (list_regions [Hippocampus])
        (initial_manager [sample_memory ''b'' 0.5, sample_memory ''c'' 0.9, sample_memory ''a'' 0.5])
        ''note'' no_options
     = Inr [sample_memory ''c'' 0.9, sample_memory ''b'' 0.5, sample_memory ''a'' 0.5]
   \<and> length [sample_memory ''c'' 0.9, sample_memory ''b'' 0.5, sample_memory ''a'' 0.5] \<le> 20"
proof -
  let ?s = "[sample_memory ''b'' 0.5, sample_memory ''c'' 0.9, sample_memory ''a'' 0.5]"
  let ?R = "list_regions [Hippocampus]"
  let ?o2 = "no_options\<lparr>o_maxResults := Given 2\<rparr>"
  let ?answers = "[map Some ?s, [], [], [], [], []]"
  have r2: "searchMemories ?R (initial_manager ?s) ''note'' ?o2
              = Inr [sample_memory ''c'' 0.9, sample_memory ''b'' 0.5]"
    by (simp add: searchMemories_def buildSearchOptions_def mergeResults_def
        deduplicateMemories_def List.map_filter_def sort_cmp_def compareMemories_def data_defs
        js_defs subconscciousThreshold_def Let_def)
  have r0: "searchMemories ?R (initial_manager ?s) ''note'' no_options
              = Inr [sample_memory ''c'' 0.9, sample_memory ''b'' 0.5, sample_memory ''a'' 0.5]"
    by (simp add: searchMemories_def buildSearchOptions_def mergeResults_def
        deduplicateMemories_def List.map_filter_def sort_cmp_def compareMemories_def data_defs
        js_defs subconscciousThreshold_def Let_def)
  have c2: "collect (map (\<lambda>r. searchRegionContent ?R r ''note'' (buildSearchOptions ?o2)
              (stores (initial_manager ?s))) all_regions) = Inr ?answers"
    by (simp add: data_defs)
  have c0: "collect (map (\<lambda>r. searchRegionContent ?R r ''note'' (buildSearchOptions no_options)
              (stores (initial_manager ?s))) all_regions) = Inr ?answers"
    by (simp add: data_defs)
  have k: "sort_key_of (sortBy (buildSearchOptions ?o2)) = weight"
    by (rule ext) (simp add: sort_key_of_def buildSearchOptions_def no_options_def js_defs)
  have g: "o_maxResults ?o2 = Given 2 \<and> (0::int) \<le> 2"
    by simp
  have a: "o_maxResults no_options = Absent"
    by (simp add: no_options_def)
  have cands: "filter (\<lambda>m. weight_ge (weight m) (minWeight (buildSearchOptions ?o2)))
                 (List.map_filter (\<lambda>x. x) (concat ?answers)) = ?s"
    by (simp add: List.map_filter_def buildSearchOptions_def no_options_def js_defs
        subconscciousThreshold_def sample_memory_def)
  from search_sorted_stable_limited [OF r2 c2, of "0.5" 2] g
  have "sorted_wrt (\<lambda>a b. weight a \<ge> weight b) [sample_memory ''c'' 0.9, sample_memory ''b'' 0.5]
     \<and> prefix (filter (\<lambda>m. weight m = 0.5) [sample_memory ''c'' 0.9, sample_memory ''b'' 0.5])
          (filter (\<lambda>m. weight m = 0.5) ?s)
     \<and> length [sample_memory ''c'' 0.9, sample_memory ''b'' 0.5] \<le> nat 2"
    unfolding k cands by blast
  moreover from search_sorted_stable_limited [OF r0 c0, of "0.5" 2] a
  have "length [sample_memory ''c'' 0.9, sample_memory ''b'' 0.5, sample_memory ''a'' 0.5] \<le> 20"
    by blast
  ultimately show ?thesis
    using r2 r0 by blast
qed

theorem search_ties_counterexample:
  "searchMemories (list_regions [Hippocampus])
      (initial_manager [sample_memory ''b'' 0.5, sample_memory ''a'' 0.5]) ''note'' no_options
     = Inr [sample_memory ''b'' 0.5, sample_memory ''a'' 0.5]
   \<and> weight (sample_memory ''b'' 0.5) = weight (sample_memory ''a'' 0.5)
   \<and> mem_id (sample_memory ''a'' 0.5) < mem_id (sample_memory ''b'' 0.5)
   \<and> \<not> sorted_wrt (spec_before weight) [sample_memory ''b'' 0.5, sample_memory ''a'' 0.5]"
  by (simp add: searchMemories_def buildSearchOptions_def mergeResults_def
        deduplicateMemories_def List.map_filter_def sort_cmp_def compareMemories_def data_defs
        js_defs subconscciousThreshold_def Let_def spec_before_def)

section \<open>Consolidation\<close>





section \<open>Defaults and statistics\<close>

text \<open>
  Claim C9. A caller who passes 0 as \<^verbatim>\<open>initialWeight\<close>, \<^verbatim>\<open>emotionalWeight\<close> or
  \<^verbatim>\<open>semanticWeight\<close> gets the default instead (weight 1.0, emotional weight 0.5, semantic
  weight 0.5), because \<^verbatim>\<open>||\<close> takes 0 for a missing value. This holds for the manager's
  \<^verbatim>\<open>storeMemory\<close>, whose new record is the one handed to the regions, and for the tool
  layer's \<^verbatim>\<open>storeMemory\<close>, which replaces the 0 before the manager sees it.
\<close>

theorem zero_is_replaced_by_default:
  "(md_initialWeight d = Some 0 \<longrightarrow> weight (newMemory d i now) = 1)
   \<and> (md_emotionalWeight d = Some 0 \<longrightarrow> emotionalWeight (newMemory d i now) = 0.5)
   \<and> (md_semanticWeight d = Some 0 \<longrightarrow> semanticWeight (newMemory d i now) = 0.5)
   \<and> (a_initialWeight args = Some 0
        \<longrightarrow> md_initialWeight (toolMemoryData args t) = Some 1
          \<and> weight (newMemory (toolMemoryData args t) i now) = 1)
   \<and> (a_emotionalWeight args = Some 0
        \<longrightarrow> md_emotionalWeight (toolMemoryData args t) = Some 0.5
          \<and> emotionalWeight (newMemory (toolMemoryData args t) i now) = 0.5)
   \<and> (a_semanticWeight args = Some 0
        \<longrightarrow> md_semanticWeight (toolMemoryData args t) = Some 0.5
          \<and> semanticWeight (newMemory (toolMemoryData args t) i now) = 0.5)
   \<and> (storeMemory R mgr d i now = Inr (i', mgr')
        \<longrightarrow> distributeMemory R (newMemory d i now) (stores mgr) = Inr (stores mgr'))"
proof -
  have "md_initialWeight d = Some 0 \<longrightarrow> weight (newMemory d i now) = 1"
    and "md_emotionalWeight d = Some 0 \<longrightarrow> emotionalWeight (newMemory d i now) = 0.5"
    and "md_semanticWeight d = Some 0 \<longrightarrow> semanticWeight (newMemory d i now) = 0.5"
    by (simp_all add: newMemory_def or_num_def)
  moreover have "a_initialWeight args = Some 0
        \<longrightarrow> md_initialWeight (toolMemoryData args t) = Some 1
          \<and> weight (newMemory (toolMemoryData args t) i now) = 1"
    and "a_emotionalWeight args = Some 0
        \<longrightarrow> md_emotionalWeight (toolMemoryData args t) = Some 0.5
          \<and> emotionalWeight (newMemory (toolMemoryData args t) i now) = 0.5"
    and "a_semanticWeight args = Some 0
        \<longrightarrow> md_semanticWeight (toolMemoryData args t) = Some 0.5
          \<and> semanticWeight (newMemory (toolMemoryData args t) i now) = 0.5"
    by (simp_all add: newMemory_def toolMemoryData_def or_num_def)
  moreover have "storeMemory R mgr d i now = Inr (i', mgr')
        \<longrightarrow> distributeMemory R (newMemory d i now) (stores mgr) = Inr (stores mgr')"
    using storeMemory_Inr by blast
  ultimately show ?thesis
    by blast
qed

theorem zero_is_replaced_by_default_witness:
  "storeMemory (list_regions all_regions) (initial_manager [])
      (hello_data\<lparr> md_initialWeight := Some 0, md_emotionalWeight := Some 0,
                   md_semanticWeight := Some 0 \<rparr>) ''mem_1'' 1000
     = Inr (''mem_1'',
            \<lparr> isInitialized = True,
              stats = \<lparr> totalMemories = 1, consciousMemories = 1, consolidationsPerformed = 0,
                        lastConsolidation = None, averageWeight = 0 \<rparr>,
              stores = [\<lparr> mem_id = ''mem_1'', content = ''hello'', mtype = ''general'',
                          weight = 1, created = 1000, lastAccessed = 1000, accessCount = 0,
                          emotionalWeight = 0.5, semanticWeight = 0.5, tags = [],
                          metadata = [] \<rparr>] \<rparr>)
   \<and> toolMemoryData
        \<lparr> a_content = ''hello'', a_type = None, a_initialWeight = Some 0,
          a_emotionalWeight = Some 0, a_semanticWeight = Some 0, a_tags = None \<rparr> ''2025-07-03''
     = \<lparr> md_content = ''hello'', md_type = Some ''general'', md_initialWeight = Some 1,
         md_emotionalWeight = Some 0.5, md_semanticWeight = Some 0.5, md_tags = Some [],
         md_metadata = Some [(''embeddingModel'', ''text-embedding-mxbai-embed-large-v1''),
                             (''storedAt'', ''2025-07-03'')] \<rparr>"
proof -
  let ?d = "hello_data\<lparr> md_initialWeight := Some 0, md_emotionalWeight := Some 0,
                        md_semanticWeight := Some 0 \<rparr>"
  let ?a = "\<lparr> a_content = ''hello'', a_type = None, a_initialWeight = Some 0,
          a_emotionalWeight = Some 0, a_semanticWeight = Some 0, a_tags = None \<rparr>"
  let ?mgr' = "\<lparr> isInitialized = True,
              stats = \<lparr> totalMemories = 1, consciousMemories = 1, consolidationsPerformed = 0,
                        lastConsolidation = None, averageWeight = 0 \<rparr>,
              stores = [newMemory ?d ''mem_1'' 1000] \<rparr>"
  have s: "storeMemory (list_regions all_regions) (initial_manager []) ?d ''mem_1'' 1000
             = Inr (''mem_1'', ?mgr')"
    by (simp add: storeMemory_def data_defs newMemory_def js_defs consciousThreshold_def Let_def)
  have h: "md_initialWeight ?d = Some 0" "md_emotionalWeight ?d = Some 0"
      "md_semanticWeight ?d = Some 0" "a_initialWeight ?a = Some 0"
      "a_emotionalWeight ?a = Some 0" "a_semanticWeight ?a = Some 0"
    by simp_all
  note T = zero_is_replaced_by_default [of ?d "''mem_1''" 1000 ?a "''2025-07-03''"
      "list_regions all_regions" "initial_manager []" "''mem_1''" ?mgr']
  from T h s have w: "weight (newMemory ?d ''mem_1'' 1000) = 1"
      "emotionalWeight (newMemory ?d ''mem_1'' 1000) = 0.5"
      "semanticWeight (newMemory ?d ''mem_1'' 1000) = 0.5"
      "md_initialWeight (toolMemoryData ?a ''2025-07-03'') = Some 1"
      "md_emotionalWeight (toolMemoryData ?a ''2025-07-03'') = Some 0.5"
      "md_semanticWeight (toolMemoryData ?a ''2025-07-03'') = Some 0.5"
    by blast+
  have n: "newMemory ?d ''mem_1'' 1000
     = \<lparr> mem_id = ''mem_1'', content = ''hello'', mtype = ''general'',
         weight = weight (newMemory ?d ''mem_1'' 1000), created = 1000, lastAccessed = 1000,
         accessCount = 0, emotionalWeight = emotionalWeight (newMemory ?d ''mem_1'' 1000),
         semanticWeight = semanticWeight (newMemory ?d ''mem_1'' 1000), tags = [],
         metadata = [] \<rparr>"
    by (simp add: newMemory_def hello_data_def js_defs)
  have t: "toolMemoryData ?a ''2025-07-03''
     = \<lparr> md_content = ''hello'', md_type = Some ''general'',
         md_initialWeight = md_initialWeight (toolMemoryData ?a ''2025-07-03''),
         md_emotionalWeight = md_emotionalWeight (toolMemoryData ?a ''2025-07-03''),
         md_semanticWeight = md_semanticWeight (toolMemoryData ?a ''2025-07-03''),
         md_tags = Some [],
         md_metadata = Some [(''embeddingModel'', ''text-embedding-mxbai-embed-large-v1''),
                             (''storedAt'', ''2025-07-03'')] \<rparr>"
    by (simp add: toolMemoryData_def js_defs)
  from s n t show ?thesis
    unfolding w by simp
qed

text \<open>
  Claim C10. When the stores hold no record, \<^verbatim>\<open>getMemoryStatistics\<close> succeeds with
  \<^verbatim>\<open>averageWeight\<close> 0, a finite number rather than the \<^verbatim>\<open>NaN\<close> of 0/0, and with the
  conscious, accessible and dormant counts all 0: \<^verbatim>\<open>_calculateWeightDistribution\<close>
  returns before it divides.
\<close>

theorem empty_population_statistics:
  assumes "isInitialized mgr"
    and "collect (map (\<lambda>r. getRegionStats R r (stores mgr)) all_regions) = Inr counts"
    and "getAllMemoriesForConsolidation R (stores mgr) = Inr []"
  shows "\<exists>st. getMemoryStatistics R mgr now = Inr st
           \<and> st_averageWeight st = Some 0
           \<and> average (st_weightDistribution st) = Some 0
           \<and> conscious (st_weightDistribution st) = 0
           \<and> accessible (st_weightDistribution st) = 0
           \<and> dormant (st_weightDistribution st) = 0
           \<and> st_totalMemories st = 0"
  using assms
  by (simp add: getMemoryStatistics_def calculateWeightDistribution_def Let_def)

theorem empty_population_statistics_witness:
  "isInitialized (initial_manager ())
   \<and> getAllMemoriesForConsolidation placeholder_regions (stores (initial_manager ())) = Inr []
   \<and> getMemoryStatistics placeholder_regions (initial_manager ()) 1000
     = Inr \<lparr> st_totalMemories = 0, st_consciousMemories = 0, st_consolidationsPerformed = 0,
             st_lastConsolidation = None, st_regionDistribution = [0, 0, 0, 0, 0, 0],
             st_weightDistribution =
               \<lparr> average = Some 0, conscious = 0, accessible = 0, dormant = 0, total = None \<rparr>,
             st_averageWeight = Some 0, st_amplificationFactor = 1, st_lastUpdated = 1000 \<rparr>"
proof -
  have i: "isInitialized (initial_manager ())"
    by (simp add: initial_manager_def)
  have c: "collect (map (\<lambda>r. getRegionStats placeholder_regions r (stores (initial_manager ())))
             all_regions) = Inr [0, 0, 0, 0, 0, 0]"
    by (simp add: data_defs)
  have g: "getAllMemoriesForConsolidation placeholder_regions (stores (initial_manager ())) = Inr []"
    by (simp add: placeholder_regions_def)
  from empty_population_statistics [OF i c g, of 1000]
  obtain st where st: "getMemoryStatistics placeholder_regions (initial_manager ()) 1000 = Inr st"
    and a: "st_averageWeight st = Some 0"
    by blast
  have "getMemoryStatistics placeholder_regions (initial_manager ()) 1000
     = Inr \<lparr> st_totalMemories = 0, st_consciousMemories = 0, st_consolidationsPerformed = 0,
             st_lastConsolidation = None, st_regionDistribution = [0, 0, 0, 0, 0, 0],
             st_weightDistribution =
               \<lparr> average = Some 0, conscious = 0, accessible = 0, dormant = 0, total = None \<rparr>,
             st_averageWeight = Some 0, st_amplificationFactor = 1, st_lastUpdated = 1000 \<rparr>"
    by (simp add: getMemoryStatistics_def calculateWeightDistribution_def
        calculateAmplificationFactor_def data_defs Let_def)
  with i g st a show ?thesis
    by simp
qed

end
